theory Spec2Isabelle
  imports Complex_Main "HOL-Library.Char_ord" "HOL-Library.List_Lexorder"
    "HOL-Library.Product_Lexorder"
begin

section \<open>Selection state machine (dashboard.py, update_selections)\<close>

text \<open>
  The callback receives the two click payloads, the two stored selections and, through
  \<open>ctx.triggered\<close>, the list of properties that fired.  A click payload is \<open>None\<close> or a
  JSON object; the object is modelled as an association list from field names to the lists
  of points they hold, a point as an association list from field names to strings.
  Subscripting a missing field raises \<open>KeyError\<close>, subscripting an empty list
  raises \<open>IndexError\<close>, subscripting \<open>None\<close> raises \<open>TypeError\<close>; all three are
  results of the model.
\<close>

datatype py_error = KeyError | IndexError | TypeError

type_synonym point = "(string \<times> string) list"
type_synonym click_data = "(string \<times> point list) list"

text \<open>\<open>d[k]\<close> on a dict.\<close>

definition getitem :: "(string \<times> 'v) list \<Rightarrow> string \<Rightarrow> py_error + 'v" where
  "getitem d k = (case map_of d k of None \<Rightarrow> Inl KeyError | Some v \<Rightarrow> Inr v)"

text \<open>\<open>xs[0]\<close> on a list.\<close>

definition first_item :: "'a list \<Rightarrow> py_error + 'a" where
  "first_item xs = (case xs of [] \<Rightarrow> Inl IndexError | x # _ \<Rightarrow> Inr x)"

text \<open>Truth value of a click payload: \<open>None\<close> and the empty dict are false.\<close>

definition truthy_click :: "click_data option \<Rightarrow> bool" where
  "truthy_click c = (case c of None \<Rightarrow> False | Some d \<Rightarrow> d \<noteq> [])"

text \<open>Truth value of an optional string: \<open>None\<close> and the empty string are false.\<close>

definition truthy_str :: "string option \<Rightarrow> bool" where
  "truthy_str s = (case s of None \<Rightarrow> False | Some v \<Rightarrow> v \<noteq> [])"

text \<open>\<open>click["points"][0][key]\<close>.\<close>

definition click_field :: "click_data option \<Rightarrow> string \<Rightarrow> py_error + string" where
  "click_field c key =
     (case c of
        None \<Rightarrow> Inl TypeError
      | Some d \<Rightarrow>
          (case getitem d ''points'' of
             Inl e \<Rightarrow> Inl e
           | Inr ps \<Rightarrow>
               (case first_item ps of
                  Inl e \<Rightarrow> Inl e
                | Inr p \<Rightarrow> getitem p key)))"

text \<open>\<open>t["prop_id"].split(".")[0]\<close>: the part of the property id before its first dot.\<close>

definition split_first :: "string \<Rightarrow> string" where
  "split_first s = takeWhile (\<lambda>c. c \<noteq> CHR ''.'') s"

definition triggered_ids :: "string list \<Rightarrow> string list" where
  "triggered_ids prop_ids = map split_first prop_ids"

text \<open>
  \<open>update_selections\<close>, lines 115-135.  \<open>prop_ids\<close> is the list of the \<open>prop_id\<close>
  entries of \<open>ctx.triggered\<close>.  The counters \<open>reset_all\<close> and \<open>reset_mat\<close> are
  arguments of the source function that its body never reads.
\<close>

definition update_selections ::
  "click_data option \<Rightarrow> click_data option \<Rightarrow> nat \<Rightarrow> nat \<Rightarrow> string list \<Rightarrow>
   string option \<Rightarrow> string option \<Rightarrow> py_error + (string option \<times> string option)" where
  "update_selections map_click bar_click reset_all reset_mat prop_ids current_muni current_material =
     (let triggered = triggered_ids prop_ids;
          muni_sel = current_muni;
          mat_sel = current_material
      in
      (case (if ''norway-map'' \<in> set triggered \<and> truthy_click map_click
             then map_sum id Some (click_field map_click ''location'')
             else Inr muni_sel) of
         Inl e \<Rightarrow> Inl e
       | Inr muni_sel \<Rightarrow>
           (case (if ''chart-material-type'' \<in> set triggered \<and> truthy_click bar_click
                  then map_sum id Some (click_field bar_click ''y'')
                  else Inr mat_sel) of
              Inl e \<Rightarrow> Inl e
            | Inr mat_sel \<Rightarrow>
                (let muni_sel = (if ''reset-button'' \<in> set triggered then None else muni_sel);
                     mat_sel = (if ''reset-material-button'' \<in> set triggered then None else mat_sel)
                 in Inr (muni_sel, mat_sel)))))"

text \<open>
  A click payload carries the field \<open>key\<close> when it is absent, empty, or has a first point
  with that field: these are the payloads on which the two subscript chains do not raise.
\<close>

definition carries :: "string \<Rightarrow> click_data option \<Rightarrow> bool" where
  "carries key c =
     (case c of
        None \<Rightarrow> True
      | Some d \<Rightarrow>
          d = [] \<or>
          (case map_of d ''points'' of
             None \<Rightarrow> False
           | Some ps \<Rightarrow>
               (case ps of [] \<Rightarrow> False | p # _ \<Rightarrow> map_of p key \<noteq> None)))"

section \<open>Data model (dashboard.py, lines 10-41)\<close>

text \<open>
  The two dropdowns offer three metrics and three scenarios.  The value column of a pair
  is named \<open>f"{metric}_{scenario}"\<close>.
\<close>

datatype metric = material_stock | material_emissions | manufacturing_emissions

datatype scenario = mean_scn | max_scn | min_scn

definition metric_str :: "metric \<Rightarrow> string" where
  "metric_str m =
     (case m of
        material_stock \<Rightarrow> ''material_stock''
      | material_emissions \<Rightarrow> ''material_emissions''
      | manufacturing_emissions \<Rightarrow> ''manufacturing_emissions'')"

definition scenario_str :: "scenario \<Rightarrow> string" where
  "scenario_str s = (case s of mean_scn \<Rightarrow> ''mean'' | max_scn \<Rightarrow> ''max'' | min_scn \<Rightarrow> ''min'')"

definition col_name :: "metric \<Rightarrow> scenario \<Rightarrow> string" where
  "col_name m s = metric_str m @ ''_'' @ scenario_str s"

text \<open>
  A row of the flat table \<open>df\<close>.  The column \<open>type\<close> is the field \<open>building_type\<close>; the
  numeric columns are read by name through \<open>cols\<close>.  Numbers are real numbers: the
  rounding of binary floating point and its special values are not part of the model.
\<close>

record df_row =
  kommunenum :: string
  material :: string
  energy_carrier :: string
  building_type :: string
  cohort :: string
  cols :: "string \<Rightarrow> real"

text \<open>A row of \<open>municipals\<close>, without its geometry.\<close>

record muni_row =
  muni_kommunenum :: string
  muni_kommunenav :: string

text \<open>What \<open>np.log10\<close> gives: a number, \<open>-inf\<close> at zero, \<open>nan\<close> below zero.\<close>

datatype np_float = Finite real | NegInf | NaN

text \<open>
  A row of a precomputed table.  \<open>agg_kommunenav\<close> is \<open>None\<close> where the left merge found no
  municipality; \<open>agg_log\<close> is the column \<open>"log_" + value_col\<close>, \<open>None\<close> as long as the frame
  has no such column.
\<close>

record agg_row =
  agg_kommunenum :: string
  agg_material :: string
  agg_value :: real
  agg_kommunenav :: "string option"
  agg_log :: "np_float option"

text \<open>\<open>s.startswith(p)\<close> and \<open>s.zfill(w)\<close>.\<close>

definition startswith :: "string \<Rightarrow> string \<Rightarrow> bool" where
  "startswith s p = (take (length p) s = p)"

definition zfill :: "nat \<Rightarrow> string \<Rightarrow> string" where
  "zfill w s =
     (if w \<le> length s then s
      else (case s of
              [] \<Rightarrow> replicate w CHR ''0''
            | c # cs \<Rightarrow>
                if c = CHR ''+'' \<or> c = CHR ''-''
                then c # replicate (w - length s) CHR ''0'' @ cs
                else replicate (w - length s) CHR ''0'' @ s))"

text \<open>Line 13: every column whose name starts with the prefix is divided by 10.\<close>

definition scale_manufacturing :: "df_row \<Rightarrow> df_row" where
  "scale_manufacturing r =
     r\<lparr>cols := (\<lambda>c. if startswith c ''manufacturing_emissions_'' then cols r c / 10
                     else cols r c)\<rparr>"

text \<open>
  Lines 12, 13 and 20: the table read from the file, its manufacturing columns rescaled,
  its municipality codes padded to four digits.
\<close>

definition load_df :: "df_row list \<Rightarrow> df_row list" where
  "load_df csv =
     (let df = map scale_manufacturing csv
      in map (\<lambda>r. r\<lparr>kommunenum := zfill 4 (kommunenum r)\<rparr>) df)"

text \<open>Lines 16-19.\<close>

definition load_municipals :: "muni_row list \<Rightarrow> muni_row list" where
  "load_municipals shp = map (\<lambda>m. m\<lparr>muni_kommunenum := zfill 4 (muni_kommunenum m)\<rparr>) shp"

text \<open>
  \<open>rows.groupby(key, as_index=False)[val].sum()\<close>: one row per key that occurs, in
  ascending order of the keys, holding the sum of \<open>val\<close> over the rows of that key.
\<close>

definition groupby_sum ::
  "('r \<Rightarrow> 'k::linorder) \<Rightarrow> ('r \<Rightarrow> real) \<Rightarrow> 'r list \<Rightarrow> ('k \<times> real) list" where
  "groupby_sum key val rows =
     map (\<lambda>k. (k, sum_list (map val (filter (\<lambda>r. key r = k) rows))))
       (sort (remdups (map key rows)))"

text \<open>
  \<open>.merge(municipals[["kommunenum", "kommunenav"]], on="kommunenum", how="left")\<close>:
  every row of the left table once for each municipality row of its code, in the left
  table's order, and once without a name when there is none.
\<close>

definition merge_left ::
  "((string \<times> string) \<times> real) list \<Rightarrow> muni_row list \<Rightarrow> agg_row list" where
  "merge_left grouped municipals =
     concat (map (\<lambda>((k, m), v).
        (case filter (\<lambda>mu. muni_kommunenum mu = k) municipals of
           [] \<Rightarrow> [\<lparr>agg_kommunenum = k, agg_material = m, agg_value = v,
                   agg_kommunenav = None, agg_log = None\<rparr>]
         | ms \<Rightarrow> map (\<lambda>mu. \<lparr>agg_kommunenum = k, agg_material = m, agg_value = v,
                   agg_kommunenav = Some (muni_kommunenav mu), agg_log = None\<rparr>) ms))
       grouped)"

text \<open>
  The dictionary \<open>precomputed_maps\<close> and the two loops that fill it, lines 34-41.
\<close>

type_synonym store = "metric \<times> scenario \<rightharpoonup> agg_row list"

definition precompute :: "df_row list \<Rightarrow> muni_row list \<Rightarrow> store" where
  "precompute df municipals =
     foldl (\<lambda>pm metric.
        foldl (\<lambda>pm scenario.
           (let value_col = col_name metric scenario
            in pm((metric, scenario) \<mapsto>
                 merge_left
                   (groupby_sum (\<lambda>r. (kommunenum r, material r)) (\<lambda>r. cols r value_col) df)
                   municipals)))
          pm [mean_scn, max_scn, min_scn])
       Map.empty [material_stock, material_emissions, manufacturing_emissions]"

section \<open>View deriver (dashboard.py, update_dashboard)\<close>

text \<open>
  \<open>Series.round(1)\<close> rounds to one decimal, a tie going to the even neighbour.
\<close>

definition rint :: "real \<Rightarrow> int" where
  "rint x =
     (let f = \<lfloor>x\<rfloor>; d = x - of_int f
      in if d < 1 / 2 then f else if 1 / 2 < d then f + 1 else if even f then f else f + 1)"

definition round1 :: "real \<Rightarrow> real" where
  "round1 x = of_int (rint (x * 10)) / 10"

text \<open>\<open>Series.clip(lower=lo)\<close> and \<open>np.log10\<close>.\<close>

definition clip_lower :: "real \<Rightarrow> real \<Rightarrow> real" where
  "clip_lower lo x = (if x < lo then lo else x)"

definition np_log10 :: "real \<Rightarrow> np_float" where
  "np_log10 x = (if 0 < x then Finite (log 10 x) else if x = 0 then NegInf else NaN)"

text \<open>
  The function builds three figures and a summary box with the plotting and UI libraries.
  The model returns what it hands to them: the table of the map (\<open>df_map\<close>), the rows of
  the selected municipality that are drawn as an outline (\<open>sel\<close>), the tables of the two
  bar charts (\<open>df1\<close> with its hover column, \<open>df2\<close>), the number of the summary box
  (\<open>total_val\<close>) and the name it is shown with (\<open>muni_name\<close>).  Titles, unit labels and
  the formatting of the summary sentence are left out.
\<close>

datatype chart_mode = Material | Energy_type

record material_bar =
  bar_material :: string
  bar_value :: real
  bar_stock :: "real option"
  bar_emissions :: "real option"

record energy_bar =
  ebar_type :: string
  ebar_energy_carrier :: string
  ebar_value :: real

datatype bar1 =
  Material_bars "material_bar list" "string option"
| Energy_bars "energy_bar list"

record cohort_bar =
  cbar_type :: string
  cbar_cohort :: string
  cbar_value :: real

text \<open>
  \<open>municipals.set_index("kommunenum").at[code, "kommunenav"]\<close> is one name, or the
  series of all names when the code occurs more than once.
\<close>

datatype muni_label = Scalar string | Series "string list"

record dashboard =
  fig_map :: "agg_row list"
  highlight :: "muni_row list option"
  fig_bar1 :: bar1
  fig_bar2 :: "cohort_bar list"
  total_val :: real
  muni_name :: muni_label

definition divisor :: real where
  "divisor = 1000000"

text \<open>Lines 154-177: the prefix of the value column, the working records, the chart mode.\<close>

definition configure :: "df_row list \<Rightarrow> metric \<Rightarrow> metric \<times> df_row list \<times> chart_mode" where
  "configure df metric =
     (if metric = material_stock
      then (material_stock, filter (\<lambda>r. energy_carrier r = ''TOTAL'') df, Material)
      else if metric = material_emissions
      then (material_emissions, filter (\<lambda>r. energy_carrier r = ''TOTAL'') df, Material)
      else (manufacturing_emissions, df, Energy_type))"

text \<open>
  Lines 184-191.  A \<open>.loc\<close> selection is a new frame.  The third component tells whether
  \<open>df_map\<close> is still the very frame held in \<open>precomputed_maps\<close>, which is the case when
  neither selection ran.
\<close>

definition apply_selection ::
  "string option \<Rightarrow> df_row list \<Rightarrow> agg_row list \<Rightarrow> df_row list \<times> agg_row list \<times> bool" where
  "apply_selection selected_material df_filtered df_map =
     (let narrowed = (truthy_str selected_material \<and> selected_material \<noteq> Some ''TOTAL'');
          df_filtered =
            (if narrowed then filter (\<lambda>r. Some (material r) = selected_material) df_filtered
             else df_filtered);
          df_map =
            (if narrowed then filter (\<lambda>r. Some (agg_material r) = selected_material) df_map
             else df_map);
          defaulted = (\<not> truthy_str selected_material);
          df_map =
            (if defaulted then filter (\<lambda>r. agg_material r = ''TOTAL'') df_map else df_map)
      in (df_filtered, df_map, \<not> narrowed \<and> \<not> defaulted))"

text \<open>Line 194 and line 196, each an assignment to a column of \<open>df_map\<close>.\<close>

definition scale_map :: "agg_row list \<Rightarrow> agg_row list" where
  "scale_map df_map = map (\<lambda>r. r\<lparr>agg_value := round1 (agg_value r / divisor)\<rparr>) df_map"

definition log_map :: "agg_row list \<Rightarrow> agg_row list" where
  "log_map df_map =
     map (\<lambda>r. r\<lparr>agg_log := Some (np_log10 (clip_lower (1 / 10 ^ 6) (agg_value r)))\<rparr>) df_map"

text \<open>Line 233; a code that is not in the index raises \<open>KeyError\<close>.\<close>

definition name_at :: "muni_row list \<Rightarrow> string \<Rightarrow> py_error + muni_label" where
  "name_at municipals code =
     (case map muni_kommunenav (filter (\<lambda>m. muni_kommunenum m = code) municipals) of
        [] \<Rightarrow> Inl KeyError
      | [n] \<Rightarrow> Inr (Scalar n)
      | ns \<Rightarrow> Inr (Series ns))"

text \<open>Lines 232-237.\<close>

definition select_muni ::
  "muni_row list \<Rightarrow> string option \<Rightarrow> df_row list \<Rightarrow> py_error + (muni_label \<times> df_row list)" where
  "select_muni municipals selected_muni df_filtered =
     (if truthy_str selected_muni
      then (case selected_muni of
              None \<Rightarrow> Inl TypeError
            | Some code \<Rightarrow>
                (case name_at municipals code of
                   Inl e \<Rightarrow> Inl e
                 | Inr name \<Rightarrow>
                     Inr (name, filter (\<lambda>r. kommunenum r = code) df_filtered)))
      else Inr (Scalar ''all Norway'', df_filtered))"

text \<open>Lines 239-247.\<close>

definition summary_total :: "chart_mode \<Rightarrow> string \<Rightarrow> df_row list \<Rightarrow> real" where
  "summary_total mode value_col sub =
     (let sub_total =
            (if mode = Material then filter (\<lambda>r. material r = ''TOTAL'') sub
             else filter (\<lambda>r. energy_carrier r = ''TOTAL'') sub)
      in (if sub_total \<noteq> [] then sum_list (map (\<lambda>r. cols r value_col) sub_total)
          else sum_list (map (\<lambda>r. cols r value_col) sub)) / divisor)"

text \<open>Lines 274-289: the first chart in material mode, with its two context columns.\<close>

definition material_chart :: "metric \<Rightarrow> string \<Rightarrow> df_row list \<Rightarrow> bar1" where
  "material_chart metric value_col sub =
     (let data1 = filter (\<lambda>r. material r \<noteq> ''TOTAL'') sub;
          df1 = map (\<lambda>(m, v). (m, round1 v))
                  (groupby_sum material (\<lambda>r. cols r value_col) data1);
          df1 = map (\<lambda>(m, v). (m, round1 (v / divisor))) df1;
          stock = map (\<lambda>(m, v). (m, v / divisor))
                    (groupby_sum material (\<lambda>r. cols r ''material_stock_mean'') data1);
          emissions = map (\<lambda>(m, v). (m, v / divisor))
                    (groupby_sum material (\<lambda>r. cols r ''material_emissions_mean'') data1);
          hover = None;
          hover = (if metric = material_stock then Some ''emissions'' else hover);
          hover = (if metric = material_emissions then Some ''stock'' else hover)
      in Material_bars
           (map (\<lambda>(m, v). \<lparr>bar_material = m, bar_value = v,
                            bar_stock = map_option round1 (map_of stock m),
                            bar_emissions = map_option round1 (map_of emissions m)\<rparr>) df1)
           hover)"

text \<open>Lines 303-306: the first chart in energy mode.\<close>

definition energy_chart :: "string \<Rightarrow> df_row list \<Rightarrow> bar1" where
  "energy_chart value_col sub =
     (let data1 = filter (\<lambda>r. energy_carrier r \<noteq> ''TOTAL'') sub;
          df1 = groupby_sum (\<lambda>r. (building_type r, energy_carrier r))
                  (\<lambda>r. cols r value_col) data1
      in Energy_bars
           (map (\<lambda>((t, e), v). \<lparr>ebar_type = t, ebar_energy_carrier = e,
                                 ebar_value = round1 (v / divisor)\<rparr>) df1))"

text \<open>Lines 319-326: the second chart.\<close>

definition cohort_chart :: "chart_mode \<Rightarrow> string \<Rightarrow> df_row list \<Rightarrow> cohort_bar list" where
  "cohort_chart mode value_col sub =
     (let data2 =
            (if mode = Material then filter (\<lambda>r. material r \<noteq> ''TOTAL'') sub
             else filter (\<lambda>r. energy_carrier r \<noteq> ''TOTAL'') sub);
          df2 = groupby_sum (\<lambda>r. (building_type r, cohort r)) (\<lambda>r. cols r value_col) data2
      in map (\<lambda>((t, c), v). \<lparr>cbar_type = t, cbar_cohort = c,
                              cbar_value = round1 (v / divisor)\<rparr>) df2)"

text \<open>
  \<open>update_dashboard\<close>, lines 150-342.  The globals \<open>df\<close> and \<open>municipals\<close> are only
  read; the dictionary \<open>precomputed_maps\<close> is passed in and returned, since the two
  column assignments of lines 194 and 196 write into the frame \<open>df_map\<close> names, and that
  frame is the one held in the dictionary whenever no selection replaced it.  An
  exception raised after these lines leaves the written frame in the dictionary.
\<close>

definition update_dashboard ::
  "df_row list \<Rightarrow> muni_row list \<Rightarrow> store \<Rightarrow> scenario \<Rightarrow> metric \<Rightarrow> string option \<Rightarrow>
   string option \<Rightarrow> (py_error + dashboard) \<times> store" where
  "update_dashboard df municipals precomputed_maps scenario metric selected_muni
       selected_material =
     (case configure df metric of
        (prefix, df_filtered, mode) \<Rightarrow>
          (let value_col = col_name prefix scenario
           in
           (case precomputed_maps (metric, scenario) of
              None \<Rightarrow> (Inl KeyError, precomputed_maps)
            | Some stored \<Rightarrow>
                (case apply_selection selected_material df_filtered stored of
                   (df_filtered, df_map, same_frame) \<Rightarrow>
                     (let df_map = log_map (scale_map df_map);
                          precomputed_maps =
                            (if same_frame then precomputed_maps((metric, scenario) \<mapsto> df_map)
                             else precomputed_maps);
                          sel =
                            (if truthy_str selected_muni
                             then Some (filter (\<lambda>m. Some (muni_kommunenum m) = selected_muni)
                                          municipals)
                             else None)
                      in
                      (case select_muni municipals selected_muni df_filtered of
                         Inl e \<Rightarrow> (Inl e, precomputed_maps)
                       | Inr (name, sub) \<Rightarrow>
                           (Inr \<lparr>fig_map = df_map,
                                 highlight = sel,
                                 fig_bar1 =
                                   (if mode = Material
                                    then material_chart metric value_col sub
                                    else energy_chart value_col sub),
                                 fig_bar2 = cohort_chart mode value_col sub,
                                 total_val = summary_total mode value_col sub,
                                 muni_name = name\<rparr>,
                            precomputed_maps)))))))"

text \<open>
  The dictionaries the program can hold: the one built at startup, and the one left by
  any call of the callback on one it can hold.
\<close>

inductive reachable :: "df_row list \<Rightarrow> muni_row list \<Rightarrow> store \<Rightarrow> bool"
  for df :: "df_row list" and municipals :: "muni_row list" where
  startup: "reachable df municipals (precompute df municipals)"
| call: "reachable df municipals pm \<Longrightarrow>
     reachable df municipals
       (snd (update_dashboard df municipals pm scenario metric selected_muni selected_material))"

text \<open>
  The selected municipality is none, or a code of the boundary table: the selections a
  click on the map can produce.
\<close>

definition known_muni :: "muni_row list \<Rightarrow> string option \<Rightarrow> bool" where
  "known_muni municipals selected_muni =
     (case selected_muni of
        None \<Rightarrow> True
      | Some code \<Rightarrow> code = [] \<or> code \<in> set (map muni_kommunenum municipals))"

text \<open>
  The key of a row of a precomputed table.
\<close>

definition agg_key :: "agg_row \<Rightarrow> string \<times> string" where
  "agg_key r = (agg_kommunenum r, agg_material r)"

section \<open>The summary scalar as the specification words it\<close>

text \<open>
  The records a metric works on: those of energy carrier \<open>TOTAL\<close> for the two material
  metrics, all of them for the manufacturing emissions.
\<close>

definition base_records_spec :: "df_row list \<Rightarrow> metric \<Rightarrow> df_row list" where
  "base_records_spec df metric =
     (if metric = manufacturing_emissions then df
      else filter (\<lambda>r. energy_carrier r = ''TOTAL'') df)"

text \<open>
  The working records: narrowed to the selected material when one is selected and is not
  \<open>TOTAL\<close>.  As in the source, an empty string counts as no selection.
\<close>

definition working_records_spec :: "df_row list \<Rightarrow> metric \<Rightarrow> string option \<Rightarrow> df_row list" where
  "working_records_spec df metric selected_material =
     (case selected_material of
        None \<Rightarrow> base_records_spec df metric
      | Some m \<Rightarrow>
          if m \<noteq> [] \<and> m \<noteq> ''TOTAL''
          then filter (\<lambda>r. material r = m) (base_records_spec df metric)
          else base_records_spec df metric)"

text \<open>
  The working records of the selected municipality, or of all municipalities.
\<close>

definition restricted_records_spec ::
  "df_row list \<Rightarrow> metric \<Rightarrow> string option \<Rightarrow> string option \<Rightarrow> df_row list" where
  "restricted_records_spec df metric selected_muni selected_material =
     (case selected_muni of
        None \<Rightarrow> working_records_spec df metric selected_material
      | Some code \<Rightarrow>
          if code \<noteq> []
          then filter (\<lambda>r. kommunenum r = code) (working_records_spec df metric selected_material)
          else working_records_spec df metric selected_material)"

text \<open>
  The dimension the first chart groups by.
\<close>

definition grouping_dimension_spec :: "metric \<Rightarrow> df_row \<Rightarrow> string" where
  "grouping_dimension_spec metric =
     (if metric = manufacturing_emissions then energy_carrier else material)"

text \<open>
  The sum over the \<open>TOTAL\<close> rows of that dimension, or over the other rows when there is
  no \<open>TOTAL\<close> row, divided by 1,000,000.
\<close>

definition summary_scalar_spec ::
  "df_row list \<Rightarrow> scenario \<Rightarrow> metric \<Rightarrow> string option \<Rightarrow> string option \<Rightarrow> real" where
  "summary_scalar_spec df scenario metric selected_muni selected_material =
     (let rows = restricted_records_spec df metric selected_muni selected_material;
          dim = grouping_dimension_spec metric;
          val = (\<lambda>r. cols r (col_name metric scenario));
          total_rows = filter (\<lambda>r. dim r = ''TOTAL'') rows
      in if total_rows \<noteq> [] then sum_list (map val total_rows) / 1000000
         else sum_list (map val (filter (\<lambda>r. dim r \<noteq> ''TOTAL'') rows)) / 1000000)"

section \<open>A small dataset\<close>

text \<open>
  Municipality 301 (Oslo) with a wood record of 5,000,000 units of mean material stock and
  a \<open>TOTAL\<close> record, both of energy carrier \<open>TOTAL\<close>; the file holds the code
  without its leading zero.
\<close>

definition ex_csv :: "df_row list" where
  "ex_csv =
     [\<lparr>kommunenum = ''301'', material = ''wood'', energy_carrier = ''TOTAL'',
       building_type = ''house'', cohort = ''1950'',
       cols = (\<lambda>c. if c = ''material_stock_mean'' then 5000000
                    else if c = ''material_stock_max'' then 6000000
                    else if c = ''material_emissions_mean'' then 1200000
                    else if c = ''manufacturing_emissions_mean'' then 30000000
                    else 0)\<rparr>,
      \<lparr>kommunenum = ''301'', material = ''TOTAL'', energy_carrier = ''TOTAL'',
       building_type = ''house'', cohort = ''1950'',
       cols = (\<lambda>c. if c = ''material_stock_mean'' then 7000000
                    else if c = ''material_stock_max'' then 9000000
                    else if c = ''material_emissions_mean'' then 2000000
                    else if c = ''manufacturing_emissions_mean'' then 50000000
                    else 0)\<rparr>]"

definition ex_shp :: "muni_row list" where
  "ex_shp = [\<lparr>muni_kommunenum = ''301'', muni_kommunenav = ''Oslo''\<rparr>]"

definition ex_df :: "df_row list" where
  "ex_df = load_df ex_csv"

definition ex_municipals :: "muni_row list" where
  "ex_municipals = load_municipals ex_shp"

lemma click_field_carries:
  "carries key c \<Longrightarrow> truthy_click c \<Longrightarrow> \<exists>v. click_field c key = Inr v"
  by (auto simp: carries_def click_field_def getitem_def first_item_def truthy_click_def
      split: option.splits list.splits)


section \<open>Properties of the selection state machine\<close>

text \<open>
  Claim C3.  Whenever the municipality-reset button is among the triggered properties, the
  callback returns \<open>None\<close> for the selected municipality, whatever the map click in the same
  batch carries and whatever the current selection is; likewise the material-reset button
  forces \<open>None\<close> for the selected material, whatever the bar-chart click carries.  The click
  payloads are those of the framework: absent, or holding a first point with the field read.
\<close>

theorem reset_wins:
  "carries ''location'' map_click \<Longrightarrow> carries ''y'' bar_click \<Longrightarrow>
   (''reset-button'' \<in> set (triggered_ids prop_ids) \<longrightarrow>
      (\<exists>mat. update_selections map_click bar_click reset_all reset_mat prop_ids
                current_muni current_material = Inr (None, mat))) \<and>
   (''reset-material-button'' \<in> set (triggered_ids prop_ids) \<longrightarrow>
      (\<exists>muni. update_selections map_click bar_click reset_all reset_mat prop_ids
                current_muni current_material = Inr (muni, None)))"
proof -
  assume m: "carries ''location'' map_click" and b: "carries ''y'' bar_click"
  have m': "truthy_click map_click \<Longrightarrow> \<exists>v. click_field map_click ''location'' = Inr v"
    using m by (rule click_field_carries)
  have b': "truthy_click bar_click \<Longrightarrow> \<exists>v. click_field bar_click ''y'' = Inr v"
    using b by (rule click_field_carries)
  show ?thesis
    using m' b' by (auto simp: update_selections_def Let_def)
qed

theorem reset_wins_witness:
  "carries ''location'' (Some [(''points'', [[(''location'', ''0301'')]])]) \<and>
   carries ''y'' (Some [(''points'', [[(''y'', ''wood'')]])]) \<and>
   ''reset-button'' \<in> set (triggered_ids [''norway-map.clickData'', ''reset-button.n_clicks'']) \<and>
   (\<exists>mat. update_selections (Some [(''points'', [[(''location'', ''0301'')]])])
        (Some [(''points'', [[(''y'', ''wood'')]])]) 1 0
        [''norway-map.clickData'', ''reset-button.n_clicks''] (Some ''5001'') None
      = Inr (None, mat))"
  using reset_wins [of "Some [(''points'', [[(''location'', ''0301'')]])]"
      "Some [(''points'', [[(''y'', ''wood'')]])]"
      "[''norway-map.clickData'', ''reset-button.n_clicks'']" 1 0 "Some ''5001''" None]
  by (simp add: carries_def triggered_ids_def split_first_def)

text \<open>
  Claim C8.  A field that no event of the batch targets is returned as it was: the selected
  municipality when neither a map click with a payload nor the municipality reset fired, the
  selected material when neither a bar-chart click with a payload nor the material reset
  fired.  A click whose payload is absent changes nothing, so a batch of payload-less clicks
  without resets returns the current pair.
\<close>

theorem untargeted_unchanged:
  "((''norway-map'' \<notin> set (triggered_ids prop_ids) \<or> \<not> truthy_click map_click) \<and>
    ''reset-button'' \<notin> set (triggered_ids prop_ids) \<and> carries ''y'' bar_click \<longrightarrow>
      (\<exists>mat. update_selections map_click bar_click reset_all reset_mat prop_ids
                current_muni current_material = Inr (current_muni, mat))) \<and>
   ((''chart-material-type'' \<notin> set (triggered_ids prop_ids) \<or> \<not> truthy_click bar_click) \<and>
    ''reset-material-button'' \<notin> set (triggered_ids prop_ids) \<and>
    carries ''location'' map_click \<longrightarrow>
      (\<exists>muni. update_selections map_click bar_click reset_all reset_mat prop_ids
                current_muni current_material = Inr (muni, current_material))) \<and>
   (map_click = None \<and> bar_click = None \<and>
    ''reset-button'' \<notin> set (triggered_ids prop_ids) \<and>
    ''reset-material-button'' \<notin> set (triggered_ids prop_ids) \<longrightarrow>
      update_selections map_click bar_click reset_all reset_mat prop_ids
        current_muni current_material = Inr (current_muni, current_material))"
proof -
  have m': "carries ''location'' map_click \<Longrightarrow> truthy_click map_click \<Longrightarrow>
      \<exists>v. click_field map_click ''location'' = Inr v"
    by (rule click_field_carries)
  have b': "carries ''y'' bar_click \<Longrightarrow> truthy_click bar_click \<Longrightarrow>
      \<exists>v. click_field bar_click ''y'' = Inr v"
    by (rule click_field_carries)
  show ?thesis
    using m' b' by (auto simp: update_selections_def Let_def truthy_click_def)
qed

theorem untargeted_unchanged_witness:
  "(''norway-map'' \<notin> set (triggered_ids [''chart-material-type.clickData'']) \<and>
    ''reset-button'' \<notin> set (triggered_ids [''chart-material-type.clickData'']) \<and>
    carries ''y'' (Some [(''points'', [[(''y'', ''wood'')]])]) \<and>
    (\<exists>mat. update_selections (Some [(''points'', [[(''location'', ''0301'')]])])
        (Some [(''points'', [[(''y'', ''wood'')]])]) 0 0
        [''chart-material-type.clickData''] (Some ''5001'') None
      = Inr (Some ''5001'', mat))) \<and>
   (''reset-button'' \<notin> set (triggered_ids [''norway-map.clickData'', ''chart-material-type.clickData'']) \<and>
    ''reset-material-button'' \<notin> set (triggered_ids [''norway-map.clickData'', ''chart-material-type.clickData'']) \<and>
    update_selections None None 0 0
        [''norway-map.clickData'', ''chart-material-type.clickData''] (Some ''5001'') (Some ''wood'')
      = Inr (Some ''5001'', Some ''wood''))"
  using untargeted_unchanged [of "[''chart-material-type.clickData'']"
      "Some [(''points'', [[(''location'', ''0301'')]])]"
      "Some [(''points'', [[(''y'', ''wood'')]])]" 0 0 "Some ''5001''" None]
    untargeted_unchanged [of "[''norway-map.clickData'', ''chart-material-type.clickData'']"
      None None 0 0 "Some ''5001''" "Some ''wood''"]
  by (simp add: carries_def triggered_ids_def split_first_def)

section \<open>Grouping, merging and the precomputed tables\<close>

lemma groupby_sum_keys:
  "map fst (groupby_sum key val rows) = sort (remdups (map key rows))"
  by (simp add: groupby_sum_def comp_def)

lemma groupby_sum_mem:
  "(k, v) \<in> set (groupby_sum key val rows) \<Longrightarrow>
   v = sum_list (map val (filter (\<lambda>r. key r = k) rows)) \<and> k \<in> set (map key rows)"
  by (auto simp: groupby_sum_def)

lemma map_of_groupby_sum:
  "map_of (map (\<lambda>(k, v). (k, f v)) (groupby_sum key val rows)) k =
     (if k \<in> set (map key rows)
      then Some (f (sum_list (map val (filter (\<lambda>r. key r = k) rows)))) else None)"
proof -
  have "map (\<lambda>(k, v). (k, f v)) (groupby_sum key val rows) =
      map (\<lambda>k. (k, f (sum_list (map val (filter (\<lambda>r. key r = k) rows)))))
        (sort (remdups (map key rows)))"
    by (simp add: groupby_sum_def comp_def)
  then show ?thesis
    by (simp add: map_of_map_restrict restrict_map_def)
qed

lemma filter_one_or_none:
  "distinct (map f xs) \<Longrightarrow> filter (\<lambda>x. f x = k) xs = [] \<or> (\<exists>x. filter (\<lambda>x. f x = k) xs = [x])"
proof (induction xs)
  case Nil
  then show ?case by simp
next
  case (Cons a xs)
  show ?case
  proof (cases "f a = k")
    case True
    with Cons.prems have "k \<notin> f ` set xs" by simp
    then have "\<forall>x \<in> set xs. f x \<noteq> k" by blast
    then have "filter (\<lambda>x. f x = k) xs = []" by (simp add: filter_empty_conv)
    with True show ?thesis by simp
  next
    case False
    with Cons show ?thesis by simp
  qed
qed

lemma merge_left_keys:
  "distinct (map muni_kommunenum municipals) \<Longrightarrow>
   map agg_key (merge_left grouped municipals) = map fst grouped"
proof (induction grouped)
  case Nil
  then show ?case by (simp add: merge_left_def)
next
  case (Cons g gs)
  obtain k m v where g: "g = ((k, m), v)" by (cases g) auto
  from filter_one_or_none [OF Cons.prems, of k]
  have "map agg_key
      (case filter (\<lambda>mu. muni_kommunenum mu = k) municipals of
           [] \<Rightarrow> [\<lparr>agg_kommunenum = k, agg_material = m, agg_value = v,
                   agg_kommunenav = None, agg_log = None\<rparr>]
         | ms \<Rightarrow> map (\<lambda>mu. \<lparr>agg_kommunenum = k, agg_material = m, agg_value = v,
                   agg_kommunenav = Some (muni_kommunenav mu), agg_log = None\<rparr>) ms) = [(k, m)]"
    by (auto simp: agg_key_def)
  with Cons show ?case
    by (simp add: merge_left_def g)
qed

lemma merge_left_rows:
  "row \<in> set (merge_left grouped municipals) \<Longrightarrow>
   (agg_key row, agg_value row) \<in> set grouped"
proof (induction grouped)
  case Nil
  then show ?case by (simp add: merge_left_def)
next
  case (Cons g gs)
  obtain k m v where g: "g = ((k, m), v)" by (cases g) auto
  from Cons.prems have "row \<in> set (case filter (\<lambda>mu. muni_kommunenum mu = k) municipals of
           [] \<Rightarrow> [\<lparr>agg_kommunenum = k, agg_material = m, agg_value = v,
                   agg_kommunenav = None, agg_log = None\<rparr>]
         | ms \<Rightarrow> map (\<lambda>mu. \<lparr>agg_kommunenum = k, agg_material = m, agg_value = v,
                   agg_kommunenav = Some (muni_kommunenav mu), agg_log = None\<rparr>) ms)
      \<or> row \<in> set (merge_left gs municipals)"
    by (simp add: merge_left_def g)
  then show ?case
  proof
    assume "row \<in> set (case filter (\<lambda>mu. muni_kommunenum mu = k) municipals of
           [] \<Rightarrow> [\<lparr>agg_kommunenum = k, agg_material = m, agg_value = v,
                   agg_kommunenav = None, agg_log = None\<rparr>]
         | ms \<Rightarrow> map (\<lambda>mu. \<lparr>agg_kommunenum = k, agg_material = m, agg_value = v,
                   agg_kommunenav = Some (muni_kommunenav mu), agg_log = None\<rparr>) ms)"
    then have "agg_key row = (k, m) \<and> agg_value row = v"
      by (cases "filter (\<lambda>mu. muni_kommunenum mu = k) municipals") (auto simp: agg_key_def)
    then show ?thesis by (simp add: g)
  next
    assume "row \<in> set (merge_left gs municipals)"
    then show ?thesis using Cons.IH by simp
  qed
qed

lemma precompute_lookup:
  "precompute df municipals (m, s) =
     Some (merge_left (groupby_sum (\<lambda>r. (kommunenum r, material r))
             (\<lambda>r. cols r (col_name m s)) df) municipals)"
  by (cases m; cases s) (simp_all add: precompute_def)

lemma sum_list_div: "sum_list (map (\<lambda>r. f r / c) xs) = sum_list (map f xs) / (c::real)"
  by (induction xs) (simp_all add: add_divide_distrib)

lemma filter_none_total:
  "filter P xs = [] \<Longrightarrow> filter (\<lambda>x. \<not> P x) xs = xs"
  by (induction xs) (auto split: if_splits)

lemma distinct_codes_of_material:
  assumes "distinct (map agg_key xs)"
  shows "distinct (map agg_kommunenum (filter (\<lambda>r. agg_material r = c) xs))"
proof -
  from assms have d: "distinct xs" and i: "inj_on agg_key (set xs)"
    by (simp_all add: distinct_map)
  have "inj_on agg_kommunenum (set (filter (\<lambda>r. agg_material r = c) xs))"
  proof (rule inj_onI)
    fix x y
    assume "x \<in> set (filter (\<lambda>r. agg_material r = c) xs)"
      and "y \<in> set (filter (\<lambda>r. agg_material r = c) xs)"
      and "agg_kommunenum x = agg_kommunenum y"
    then have "x \<in> set xs" "y \<in> set xs" "agg_key x = agg_key y"
      by (simp_all add: agg_key_def)
    with i show "x = y" by (auto dest: inj_onD)
  qed
  with d show ?thesis by (simp add: distinct_map)
qed

section \<open>The callback, step by step\<close>

lemma select_muni_known:
  "known_muni municipals selected_muni \<Longrightarrow>
   \<exists>name. select_muni municipals selected_muni recs =
     Inr (name, if truthy_str selected_muni
                then filter (\<lambda>r. Some (kommunenum r) = selected_muni) recs else recs)"
  apply (cases selected_muni)
   apply (simp add: select_muni_def truthy_str_def)
  apply (auto simp: select_muni_def truthy_str_def known_muni_def name_at_def filter_empty_conv
      split: list.splits sum.splits)
  done

lemma apply_selection_cases:
  "apply_selection sel recs tbl =
     (if truthy_str sel \<and> sel \<noteq> Some ''TOTAL''
      then (filter (\<lambda>r. Some (material r) = sel) recs,
            filter (\<lambda>r. Some (agg_material r) = sel) tbl, False)
      else if truthy_str sel then (recs, tbl, True)
      else (recs, filter (\<lambda>r. agg_material r = ''TOTAL'') tbl, False))"
  by (auto simp: apply_selection_def Let_def truthy_str_def)

lemma configure_fst: "fst (configure df metric) = metric"
  by (cases metric) (simp_all add: configure_def)

lemma configure_records: "fst (snd (configure df metric)) = base_records_spec df metric"
  by (cases metric) (simp_all add: configure_def base_records_spec_def)

lemma configure_mode:
  "snd (snd (configure df metric)) =
     (if metric = manufacturing_emissions then Energy_type else Material)"
  by (cases metric) (simp_all add: configure_def)

text \<open>
  What a call leaves in the dictionary: the scaled table with its log column under the key
  of the call when the selected material is \<open>TOTAL\<close>, the dictionary as it was otherwise.
\<close>

lemma update_dashboard_snd:
  "pm (metric, scenario) = Some stored \<Longrightarrow>
   snd (update_dashboard df municipals pm scenario metric muni mat) =
     (if mat = Some ''TOTAL'' then pm((metric, scenario) \<mapsto> log_map (scale_map stored)) else pm)"
  by (auto simp: update_dashboard_def apply_selection_cases Let_def truthy_str_def
      split: prod.splits sum.splits)

lemma update_dashboard_fst:
  assumes "pm (metric, scenario) = Some stored" and "known_muni municipals muni"
  shows "\<exists>name.
    fst (update_dashboard df municipals pm scenario metric muni mat) =
      Inr (let mode = snd (snd (configure df metric));
               value_col = col_name metric scenario;
               recs = fst (apply_selection mat (fst (snd (configure df metric))) stored);
               sub = (if truthy_str muni then filter (\<lambda>r. Some (kommunenum r) = muni) recs
                      else recs)
           in \<lparr>fig_map = log_map (scale_map
                  (fst (snd (apply_selection mat (fst (snd (configure df metric))) stored)))),
               highlight = (if truthy_str muni
                            then Some (filter (\<lambda>m. Some (muni_kommunenum m) = muni) municipals)
                            else None),
               fig_bar1 = (if mode = Material then material_chart metric value_col sub
                           else energy_chart value_col sub),
               fig_bar2 = cohort_chart mode value_col sub,
               total_val = summary_total mode value_col sub,
               muni_name = name\<rparr>)"
proof -
  obtain p base mode where c: "configure df metric = (p, base, mode)"
    by (cases "configure df metric") auto
  have p: "p = metric" using configure_fst [of df metric] c by simp
  obtain recs tbl same where a: "apply_selection mat base stored = (recs, tbl, same)"
    by (cases "apply_selection mat base stored") auto
  from select_muni_known [OF assms(2), of recs]
  obtain name where s: "select_muni municipals muni recs =
     Inr (name, if truthy_str muni
                then filter (\<lambda>r. Some (kommunenum r) = muni) recs else recs)"
    by blast
  show ?thesis
    by (rule exI [of _ name]) (simp add: update_dashboard_def c p a s assms(1) Let_def)
qed

lemma agg_key_scale_log [simp]:
  "map agg_key (log_map xs) = map agg_key xs" "map agg_key (scale_map xs) = map agg_key xs"
  by (simp_all add: log_map_def scale_map_def agg_key_def)

lemma agg_kommunenum_scale_log [simp]:
  "map agg_kommunenum (log_map xs) = map agg_kommunenum xs"
  "map agg_kommunenum (scale_map xs) = map agg_kommunenum xs"
  by (simp_all add: log_map_def scale_map_def)

text \<open>
  Every dictionary the program can hold has all nine tables, and a call changes no key of
  a table: only the value column and the log column are written.
\<close>

lemma reachable_has_table:
  "reachable df municipals pm \<Longrightarrow>
   \<exists>t. pm (m, s) = Some t \<and>
       map agg_key t =
         map agg_key (merge_left (groupby_sum (\<lambda>r. (kommunenum r, material r))
            (\<lambda>r. cols r (col_name m s)) df) municipals)"
proof (induction arbitrary: m s rule: reachable.induct)
  case startup
  show ?case by (simp add: precompute_lookup)
next
  case (call pm scenario metric selected_muni selected_material)
  from call.IH [of metric scenario] obtain stored where
    st: "pm (metric, scenario) = Some stored" by blast
  from call.IH [of m s] obtain t where
    t: "pm (m, s) = Some t" "map agg_key t =
         map agg_key (merge_left (groupby_sum (\<lambda>r. (kommunenum r, material r))
            (\<lambda>r. cols r (col_name m s)) df) municipals)" by blast
  show ?case
    using t st by (auto simp: update_dashboard_snd [where pm = pm, OF st])
qed

lemma reachable_keys:
  "reachable df municipals pm \<Longrightarrow> distinct (map muni_kommunenum municipals) \<Longrightarrow>
   \<exists>t. pm (m, s) = Some t \<and>
       map agg_key t = sort (remdups (map (\<lambda>r. (kommunenum r, material r)) df))"
  using reachable_has_table [of df municipals pm m s]
  by (simp add: merge_left_keys groupby_sum_keys)

lemma working_records:
  "fst (apply_selection mat (base_records_spec df metric) stored) =
     working_records_spec df metric mat"
  by (cases mat) (auto simp: apply_selection_cases working_records_spec_def truthy_str_def
      intro: filter_cong)

lemma restricted_records:
  "(if truthy_str muni then filter (\<lambda>r. Some (kommunenum r) = muni)
         (working_records_spec df metric mat)
    else working_records_spec df metric mat) =
   restricted_records_spec df metric muni mat"
  by (cases muni) (auto simp: restricted_records_spec_def truthy_str_def intro: filter_cong)

text \<open>
  For a municipality that is none or known, the callback returns, and its tables are the
  following.
\<close>

lemma update_dashboard_result:
  assumes "reachable df municipals pm" and "known_muni municipals muni"
  shows "\<exists>d stored.
    pm (metric, scenario) = Some stored \<and>
    fst (update_dashboard df municipals pm scenario metric muni mat) = Inr d \<and>
    fig_map d = log_map (scale_map (fst (snd
      (apply_selection mat (base_records_spec df metric) stored)))) \<and>
    fig_bar1 d =
      (if metric = manufacturing_emissions
       then energy_chart (col_name metric scenario) (restricted_records_spec df metric muni mat)
       else material_chart metric (col_name metric scenario)
              (restricted_records_spec df metric muni mat)) \<and>
    fig_bar2 d =
      cohort_chart (if metric = manufacturing_emissions then Energy_type else Material)
        (col_name metric scenario) (restricted_records_spec df metric muni mat) \<and>
    total_val d =
      summary_total (if metric = manufacturing_emissions then Energy_type else Material)
        (col_name metric scenario) (restricted_records_spec df metric muni mat)"
proof -
  from reachable_has_table [OF assms(1), of metric scenario]
  obtain stored where st: "pm (metric, scenario) = Some stored" by blast
  from update_dashboard_fst [where pm = pm and df = df and mat = mat, OF st assms(2)]
  obtain name where
    "fst (update_dashboard df municipals pm scenario metric muni mat) =
      Inr (let mode = snd (snd (configure df metric));
               value_col = col_name metric scenario;
               recs = fst (apply_selection mat (fst (snd (configure df metric))) stored);
               sub = (if truthy_str muni then filter (\<lambda>r. Some (kommunenum r) = muni) recs
                      else recs)
           in \<lparr>fig_map = log_map (scale_map
                  (fst (snd (apply_selection mat (fst (snd (configure df metric))) stored)))),
               highlight = (if truthy_str muni
                            then Some (filter (\<lambda>m. Some (muni_kommunenum m) = muni) municipals)
                            else None),
               fig_bar1 = (if mode = Material then material_chart metric value_col sub
                           else energy_chart value_col sub),
               fig_bar2 = cohort_chart mode value_col sub,
               total_val = summary_total mode value_col sub,
               muni_name = name\<rparr>)"
    by blast
  then show ?thesis
    using st
    by (simp add: Let_def configure_records configure_mode working_records restricted_records)
qed

section \<open>The small dataset, evaluated\<close>

lemmas ex_defs = ex_df_def ex_csv_def load_df_def scale_manufacturing_def zfill_def
  startswith_def col_name_def metric_str_def scenario_str_def

lemma ex_municipals_eval:
  "ex_municipals = [\<lparr>muni_kommunenum = ''0301'', muni_kommunenav = ''Oslo''\<rparr>]"
  by (simp add: ex_municipals_def ex_shp_def load_municipals_def zfill_def)

lemma ex_reachable: "reachable ex_df ex_municipals (precompute ex_df ex_municipals)"
  by (rule reachable.startup)

lemma ex_distinct: "distinct (map muni_kommunenum ex_municipals)"
  by (simp add: ex_municipals_eval)

lemma ex_known: "known_muni ex_municipals None" "known_muni ex_municipals (Some ''0301'')"
  by (simp_all add: known_muni_def ex_municipals_eval)

lemma ex_store_stock_mean:
  "precompute ex_df ex_municipals (material_stock, mean_scn) =
     Some [\<lparr>agg_kommunenum = ''0301'', agg_material = ''TOTAL'', agg_value = 7000000,
             agg_kommunenav = Some ''Oslo'', agg_log = None\<rparr>,
           \<lparr>agg_kommunenum = ''0301'', agg_material = ''wood'', agg_value = 5000000,
             agg_kommunenav = Some ''Oslo'', agg_log = None\<rparr>]"
  by (simp add: precompute_lookup ex_df_def ex_csv_def load_df_def scale_manufacturing_def zfill_def
      ex_municipals_eval groupby_sum_def merge_left_def
      col_name_def metric_str_def scenario_str_def startswith_def)

lemma ex_store_stock_max:
  "precompute ex_df ex_municipals (material_stock, max_scn) =
     Some [\<lparr>agg_kommunenum = ''0301'', agg_material = ''TOTAL'', agg_value = 9000000,
             agg_kommunenav = Some ''Oslo'', agg_log = None\<rparr>,
           \<lparr>agg_kommunenum = ''0301'', agg_material = ''wood'', agg_value = 6000000,
             agg_kommunenav = Some ''Oslo'', agg_log = None\<rparr>]"
  by (simp add: precompute_lookup ex_defs ex_municipals_eval groupby_sum_def merge_left_def)

lemma ex_store_stock_min:
  "precompute ex_df ex_municipals (material_stock, min_scn) =
     Some [\<lparr>agg_kommunenum = ''0301'', agg_material = ''TOTAL'', agg_value = 0,
             agg_kommunenav = Some ''Oslo'', agg_log = None\<rparr>,
           \<lparr>agg_kommunenum = ''0301'', agg_material = ''wood'', agg_value = 0,
             agg_kommunenav = Some ''Oslo'', agg_log = None\<rparr>]"
  by (simp add: precompute_lookup ex_defs ex_municipals_eval groupby_sum_def merge_left_def)

lemma ex_store_manufacturing_mean:
  "precompute (load_df ex_csv) (load_municipals ex_shp) (manufacturing_emissions, mean_scn) =
     Some [\<lparr>agg_kommunenum = ''0301'', agg_material = ''TOTAL'', agg_value = 5000000,
             agg_kommunenav = Some ''Oslo'', agg_log = None\<rparr>,
           \<lparr>agg_kommunenum = ''0301'', agg_material = ''wood'', agg_value = 3000000,
             agg_kommunenav = Some ''Oslo'', agg_log = None\<rparr>]"
  using ex_municipals_eval
  by (simp add: precompute_lookup ex_csv_def load_df_def scale_manufacturing_def zfill_def
      startswith_def col_name_def metric_str_def scenario_str_def ex_municipals_def
      groupby_sum_def merge_left_def)

lemma round1_examples:
  "round1 (7000000 / divisor) = 7" "round1 (5000000 / divisor) = 5"
  "round1 (7 / divisor) = 0" "round1 (5 / divisor) = 0"
  by (simp_all add: round1_def rint_def divisor_def Let_def)

lemma round1_simple: "round1 0 = 0" "round1 7 = 7" "round1 5 = 5" "round1 9 = 9" "round1 6 = 6"
  "round1 (6 / 5) = 6 / 5"
  by (simp_all add: round1_def rint_def Let_def)

lemma round1_more: "round1 6000000 = 6000000"
  by (simp add: round1_def rint_def Let_def)

lemma ex_summary:
  "summary_scalar_spec ex_df mean_scn material_stock (Some ''0301'') (Some ''wood'') = 5"
  "summary_scalar_spec ex_df mean_scn material_stock None None = 7"
  by (simp_all add: summary_scalar_spec_def restricted_records_spec_def working_records_spec_def
      base_records_spec_def grouping_dimension_spec_def ex_defs)

lemma ex_keys:
  "sort (remdups (map (\<lambda>r. (kommunenum r, material r)) ex_df)) =
     [(''0301'', ''TOTAL''), (''0301'', ''wood'')]"
  by (simp add: ex_defs)

lemma ex_data1:
  "filter (\<lambda>r. material r \<noteq> ''TOTAL'')
     (restricted_records_spec ex_df material_stock None None) =
   filter (\<lambda>r. material r = ''wood'') ex_df"
  by (simp add: restricted_records_spec_def working_records_spec_def base_records_spec_def
      ex_defs)

lemma ex_wood_sums:
  "sum_list (map (\<lambda>r. cols r ''material_stock_mean'') (filter (\<lambda>r. material r = ''wood'') ex_df))
     = 5000000"
  "sum_list (map (\<lambda>r. cols r ''material_emissions_mean'')
     (filter (\<lambda>r. material r = ''wood'') ex_df)) = 1200000"
  "sum_list (map (\<lambda>r. cols r (col_name material_stock max_scn))
     (filter (\<lambda>r. material r = ''wood'') ex_df)) = 6000000"
  by (simp_all add: ex_defs)

lemma ex_wood_materials:
  "map material (filter (\<lambda>r. material r = ''wood'') ex_df) = [''wood'']"
  by (simp add: ex_defs)

section \<open>Properties of the view deriver\<close>

text \<open>
  Claim C1.  Two calls with identical arguments should give identical tables.  On the small
  dataset, with mean material stock and the selected material \<open>TOTAL\<close>, the first call
  shows 7.0 and 5.0 on the map; the second call, with the same arguments on the dictionary
  the first one left, shows 0.0 and 0.0: the first call wrote its scaled values into the
  precomputed table, and the second scaled them again.
\<close>

theorem repeated_call_changes_map:
  "map_sum id (\<lambda>d. map agg_value (fig_map d))
     (fst (update_dashboard ex_df ex_municipals (precompute ex_df ex_municipals)
            mean_scn material_stock None (Some ''TOTAL''))) = Inr [7, 5] \<and>
   map_sum id (\<lambda>d. map agg_value (fig_map d))
     (fst (update_dashboard ex_df ex_municipals
            (snd (update_dashboard ex_df ex_municipals (precompute ex_df ex_municipals)
                    mean_scn material_stock None (Some ''TOTAL'')))
            mean_scn material_stock None (Some ''TOTAL''))) = Inr [0, 0]"
proof -
  have 1: "map_sum id (\<lambda>d. map agg_value (fig_map d))
     (fst (update_dashboard ex_df ex_municipals (precompute ex_df ex_municipals)
            mean_scn material_stock None (Some ''TOTAL''))) = Inr [7, 5]"
    by (simp add: update_dashboard_def ex_store_stock_mean configure_def apply_selection_cases
        truthy_str_def select_muni_def log_map_def scale_map_def round1_examples Let_def)
  have 2: "map_sum id (\<lambda>d. map agg_value (fig_map d))
     (fst (update_dashboard ex_df ex_municipals
            (snd (update_dashboard ex_df ex_municipals (precompute ex_df ex_municipals)
                    mean_scn material_stock None (Some ''TOTAL'')))
            mean_scn material_stock None (Some ''TOTAL''))) = Inr [0, 0]"
    by (simp add: update_dashboard_snd [where pm = "precompute ex_df ex_municipals",
          OF ex_store_stock_mean])
       (simp add: update_dashboard_def configure_def apply_selection_cases
        truthy_str_def select_muni_def log_map_def scale_map_def round1_examples Let_def)
  from 1 2 show ?thesis by (rule conjI)
qed

text \<open>
  Claim C2.  The precomputed tables should stay as startup built them.  On the small
  dataset the table of mean material stock holds 7,000,000 and 5,000,000 after startup;
  after one call with the selected material \<open>TOTAL\<close> it holds 7.0 and 5.0.
\<close>

theorem stored_table_rewritten:
  "map_option (map agg_value)
     (precompute ex_df ex_municipals (material_stock, mean_scn)) = Some [7000000, 5000000] \<and>
   map_option (map agg_value)
     (snd (update_dashboard ex_df ex_municipals (precompute ex_df ex_municipals)
             mean_scn material_stock None (Some ''TOTAL'')) (material_stock, mean_scn))
     = Some [7, 5]"
  by (simp add: update_dashboard_snd [where pm = "precompute ex_df ex_municipals",
        OF ex_store_stock_mean] ex_store_stock_mean log_map_def scale_map_def round1_examples)

text \<open>
  Claim C4.  When a material other than \<open>TOTAL\<close> is selected (a non-empty string, as
  the source tests it), lines 184-191 keep of the working records and of the aggregate
  table exactly the rows of that material, and the table of the map is the scaled table of
  those rows.  When no material is selected, the table of the map is the scaled table of the
  \<open>TOTAL\<close> rows, and no municipality has two rows in it.  This holds on every dictionary
  the program can hold, for a selected municipality that is none or known, the codes of the
  boundary table being distinct.
\<close>

theorem material_selection:
  assumes "reachable df municipals pm" and "known_muni municipals selected_muni"
    and "distinct (map muni_kommunenum municipals)"
  shows "\<exists>d stored.
    pm (metric, scenario) = Some stored \<and>
    fst (update_dashboard df municipals pm scenario metric selected_muni selected_material)
      = Inr d \<and>
    (\<forall>m. selected_material = Some m \<and> m \<noteq> [] \<and> m \<noteq> ''TOTAL'' \<longrightarrow>
       (\<forall>recs tbl. apply_selection selected_material recs tbl =
          (filter (\<lambda>r. material r = m) recs, filter (\<lambda>r. agg_material r = m) tbl, False)) \<and>
       fig_map d = log_map (scale_map (filter (\<lambda>r. agg_material r = m) stored))) \<and>
    (\<not> truthy_str selected_material \<longrightarrow>
       (\<forall>recs tbl. apply_selection selected_material recs tbl =
          (recs, filter (\<lambda>r. agg_material r = ''TOTAL'') tbl, False)) \<and>
       fig_map d = log_map (scale_map (filter (\<lambda>r. agg_material r = ''TOTAL'') stored)) \<and>
       distinct (map agg_kommunenum (fig_map d)))"
proof -
  from update_dashboard_result [OF assms(1,2), of metric scenario selected_material]
  obtain d stored where d: "pm (metric, scenario) = Some stored"
    "fst (update_dashboard df municipals pm scenario metric selected_muni selected_material)
      = Inr d"
    "fig_map d = log_map (scale_map (fst (snd
      (apply_selection selected_material (base_records_spec df metric) stored))))"
    by blast
  from reachable_keys [OF assms(1,3), of metric scenario] d(1)
  have "map agg_key stored = sort (remdups (map (\<lambda>r. (kommunenum r, material r)) df))"
    by simp
  then have "distinct (map agg_key stored)" by simp
  then have k: "distinct (map agg_kommunenum (filter (\<lambda>r. agg_material r = ''TOTAL'') stored))"
    by (rule distinct_codes_of_material)
  have a: "apply_selection (Some m) recs tbl =
      (filter (\<lambda>r. material r = m) recs, filter (\<lambda>r. agg_material r = m) tbl, False)"
    if "m \<noteq> []" "m \<noteq> ''TOTAL''" for m recs tbl
    using that by (auto simp: apply_selection_cases truthy_str_def intro: filter_cong)
  have b: "apply_selection selected_material recs tbl =
      (recs, filter (\<lambda>r. agg_material r = ''TOTAL'') tbl, False)"
    if "\<not> truthy_str selected_material" for recs tbl
    using that by (simp add: apply_selection_cases)
  show ?thesis
    apply (rule exI [of _ d], rule exI [of _ stored])
    using d k by (auto simp: a b)
qed

theorem material_selection_witness:
  "reachable ex_df ex_municipals (precompute ex_df ex_municipals) \<and>
   known_muni ex_municipals None \<and>
   distinct (map muni_kommunenum ex_municipals) \<and>
   (\<exists>d. fst (update_dashboard ex_df ex_municipals (precompute ex_df ex_municipals) mean_scn
              material_stock None (Some ''wood'')) = Inr d \<and>
        map agg_key (fig_map d) = [(''0301'', ''wood'')]) \<and>
   \<not> truthy_str None \<and>
   (\<exists>d. fst (update_dashboard ex_df ex_municipals (precompute ex_df ex_municipals) mean_scn
              material_stock None None) = Inr d \<and>
        map agg_key (fig_map d) = [(''0301'', ''TOTAL'')] \<and>
        distinct (map agg_kommunenum (fig_map d)))"
proof -
  from material_selection [OF ex_reachable ex_known(1) ex_distinct,
      of material_stock mean_scn "Some ''wood''"]
  have 1: "\<exists>d. fst (update_dashboard ex_df ex_municipals (precompute ex_df ex_municipals)
              mean_scn material_stock None (Some ''wood'')) = Inr d \<and>
        map agg_key (fig_map d) = [(''0301'', ''wood'')]"
    by (auto simp: ex_store_stock_mean agg_key_def)
  from material_selection [OF ex_reachable ex_known(1) ex_distinct,
      of material_stock mean_scn None]
  have 2: "\<exists>d. fst (update_dashboard ex_df ex_municipals (precompute ex_df ex_municipals)
              mean_scn material_stock None None) = Inr d \<and>
        map agg_key (fig_map d) = [(''0301'', ''TOTAL'')] \<and>
        distinct (map agg_kommunenum (fig_map d))"
    by (auto simp: ex_store_stock_mean agg_key_def truthy_str_def)
  from 1 2 ex_reachable ex_known(1) ex_distinct show ?thesis
    by (simp add: truthy_str_def)
qed

lemma summary_total_spec:
  "summary_total (if metric = manufacturing_emissions then Energy_type else Material)
     (col_name metric scenario) (restricted_records_spec df metric muni mat) =
   summary_scalar_spec df scenario metric muni mat"
proof -
  let ?rows = "restricted_records_spec df metric muni mat"
  let ?dim = "grouping_dimension_spec metric"
  have 1: "(if (if metric = manufacturing_emissions then Energy_type else Material) = Material
        then filter (\<lambda>r. material r = ''TOTAL'') ?rows
        else filter (\<lambda>r. energy_carrier r = ''TOTAL'') ?rows) =
      filter (\<lambda>r. ?dim r = ''TOTAL'') ?rows"
    by (simp add: grouping_dimension_spec_def)
  have 2: "filter (\<lambda>r. ?dim r = ''TOTAL'') ?rows = [] \<Longrightarrow>
      filter (\<lambda>r. ?dim r \<noteq> ''TOTAL'') ?rows = ?rows"
    by (rule filter_none_total)
  show ?thesis
    unfolding summary_total_def summary_scalar_spec_def Let_def 1
    using 2 by (simp add: divisor_def)
qed

text \<open>
  Claim C5.  For every scenario, metric and selection the callback returns, and the number
  of its summary box is the summary scalar as the specification words it.
\<close>

theorem summary_scalar:
  assumes "reachable df municipals pm" and "known_muni municipals selected_muni"
  shows "\<exists>d. fst (update_dashboard df municipals pm scenario metric selected_muni
                  selected_material) = Inr d \<and>
             total_val d = summary_scalar_spec df scenario metric selected_muni selected_material"
  using update_dashboard_result [OF assms, of metric scenario selected_material]
  by (auto simp: summary_total_spec)

theorem summary_scalar_witness:
  "reachable ex_df ex_municipals (precompute ex_df ex_municipals) \<and>
   known_muni ex_municipals (Some ''0301'') \<and>
   (\<exists>d. fst (update_dashboard ex_df ex_municipals (precompute ex_df ex_municipals) mean_scn
              material_stock (Some ''0301'') (Some ''wood'')) = Inr d \<and> total_val d = 5)"
  using summary_scalar [OF ex_reachable ex_known(2), of mean_scn material_stock "Some ''wood''"]
    ex_reachable ex_known(2)
  by (simp add: ex_summary)

lemma log_map_row:
  "r \<in> set (log_map xs) \<Longrightarrow>
   agg_log r = Some (np_log10 (clip_lower (1 / 10 ^ 6) (agg_value r)))"
  by (auto simp: log_map_def)

lemma log10_floor: "log 10 (1 / 10 ^ 6) = - 6"
proof -
  have "log 10 (1 / 10 ^ 6) = - log 10 (10 ^ 6)"
    by (simp add: log_divide)
  also have "log 10 (10 ^ 6) = 6"
    using log_pow_cancel [of 10 6] by simp
  finally show ?thesis by simp
qed

text \<open>
  Claim C6.  In every row of the table of the map the log column is a number: it is
  \<open>log10(1e-6) = -6\<close> when the scaled value is below \<open>1e-6\<close> (zero and negative values
  included), and \<open>log10\<close> of the scaled value otherwise.
\<close>

theorem log_color_defined:
  assumes "reachable df municipals pm" and "known_muni municipals selected_muni"
  shows "\<exists>d. fst (update_dashboard df municipals pm scenario metric selected_muni
                  selected_material) = Inr d \<and>
             (\<forall>r \<in> set (fig_map d).
                (agg_value r < 1 / 10 ^ 6 \<longrightarrow> agg_log r = Some (Finite (- 6))) \<and>
                (1 / 10 ^ 6 \<le> agg_value r \<longrightarrow> agg_log r = Some (Finite (log 10 (agg_value r)))))"
proof -
  from update_dashboard_result [OF assms, of metric scenario selected_material]
  obtain d xs where d: "fst (update_dashboard df municipals pm scenario metric selected_muni
                  selected_material) = Inr d" "fig_map d = log_map xs"
    by blast
  have "(agg_value r < 1 / 10 ^ 6 \<longrightarrow> agg_log r = Some (Finite (- 6))) \<and>
        (1 / 10 ^ 6 \<le> agg_value r \<longrightarrow> agg_log r = Some (Finite (log 10 (agg_value r))))"
    if "r \<in> set (fig_map d)" for r
  proof -
    from that d(2) have l: "agg_log r = Some (np_log10 (clip_lower (1 / 10 ^ 6) (agg_value r)))"
      by (simp add: log_map_row)
    have "(0::real) < 1 / 10 ^ 6" by simp
    then show ?thesis
      using log10_floor by (auto simp: l clip_lower_def np_log10_def)
  qed
  with d(1) show ?thesis by blast
qed

theorem log_color_defined_witness:
  "reachable ex_df ex_municipals (precompute ex_df ex_municipals) \<and>
   known_muni ex_municipals None \<and>
   (\<exists>d. fst (update_dashboard ex_df ex_municipals (precompute ex_df ex_municipals) min_scn
              material_stock None None) = Inr d \<and>
        map agg_value (fig_map d) = [0] \<and> map agg_log (fig_map d) = [Some (Finite (- 6))])"
proof -
  from log_color_defined [OF ex_reachable ex_known(1), of min_scn material_stock None]
  obtain d where d: "fst (update_dashboard ex_df ex_municipals (precompute ex_df ex_municipals)
      min_scn material_stock None None) = Inr d"
    and l: "\<forall>r \<in> set (fig_map d).
                (agg_value r < 1 / 10 ^ 6 \<longrightarrow> agg_log r = Some (Finite (- 6))) \<and>
                (1 / 10 ^ 6 \<le> agg_value r \<longrightarrow> agg_log r = Some (Finite (log 10 (agg_value r))))"
    by blast
  from update_dashboard_result [OF ex_reachable ex_known(1), of material_stock min_scn None] d
  have "fig_map d = log_map (scale_map (fst (snd (apply_selection None
      (base_records_spec ex_df material_stock)
      [\<lparr>agg_kommunenum = ''0301'', agg_material = ''TOTAL'', agg_value = 0,
             agg_kommunenav = Some ''Oslo'', agg_log = None\<rparr>,
           \<lparr>agg_kommunenum = ''0301'', agg_material = ''wood'', agg_value = 0,
             agg_kommunenav = Some ''Oslo'', agg_log = None\<rparr>]))))"
    by (auto simp: ex_store_stock_min)
  then have v: "map agg_value (fig_map d) = [0]"
    by (simp add: apply_selection_cases truthy_str_def log_map_def scale_map_def round1_simple)
  then obtain r where r: "fig_map d = [r]" "agg_value r = 0"
    by auto
  with l have "agg_log r = Some (Finite (- 6))" by simp
  with r v d ex_reachable ex_known(1) show ?thesis by simp
qed

lemma startswith_manufacturing:
  "startswith (col_name metric scenario) ''manufacturing_emissions_'' =
     (metric = manufacturing_emissions)"
  by (cases metric; cases scenario)
     (simp_all add: startswith_def col_name_def metric_str_def scenario_str_def)

lemma load_df_cols:
  "map (\<lambda>r. cols r c) (load_df csv) =
   map (\<lambda>r. if startswith c ''manufacturing_emissions_'' then cols r c / 10 else cols r c) csv"
  by (simp add: load_df_def scale_manufacturing_def comp_def)

lemma load_df_group_sum:
  "sum_list (map (\<lambda>r. cols r (col_name metric scenario))
      (filter (\<lambda>r. (kommunenum r, material r) = (k, m)) (load_df csv))) =
   sum_list (map (\<lambda>r. cols r (col_name metric scenario))
      (filter (\<lambda>r. zfill 4 (kommunenum r) = k \<and> material r = m) csv))
     / (if metric = manufacturing_emissions then 10 else 1)"
proof -
  have "filter (\<lambda>r. (kommunenum r, material r) = (k, m)) (load_df csv) =
      map (\<lambda>r. scale_manufacturing r\<lparr>kommunenum := zfill 4 (kommunenum r)\<rparr>)
        (filter (\<lambda>r. zfill 4 (kommunenum r) = k \<and> material r = m) csv)"
    by (simp add: load_df_def filter_map comp_def scale_manufacturing_def)
  then show ?thesis
    by (simp add: comp_def scale_manufacturing_def startswith_manufacturing sum_list_div)
qed

text \<open>
  Claim C7.  Loading divides by 10 the columns whose name starts with
  \<open>manufacturing_emissions_\<close>, in every row, and leaves the other columns as they are.
  Hence every value of a precomputed table is the sum of the raw values of its municipality
  (padded code) and material, divided by 10 for the manufacturing emissions and undivided
  for the two other metrics.
\<close>

theorem manufacturing_scaled_once:
  "(\<forall>c. map (\<lambda>r. cols r c) (load_df csv) =
        map (\<lambda>r. if startswith c ''manufacturing_emissions_'' then cols r c / 10
                  else cols r c) csv) \<and>
   (\<exists>t. precompute (load_df csv) municipals (metric, scenario) = Some t \<and>
      (\<forall>row \<in> set t.
         agg_value row =
           sum_list (map (\<lambda>r. cols r (col_name metric scenario))
             (filter (\<lambda>r. zfill 4 (kommunenum r) = agg_kommunenum row \<and>
                           material r = agg_material row) csv))
           / (if metric = manufacturing_emissions then 10 else 1)))"
proof -
  let ?g = "groupby_sum (\<lambda>r. (kommunenum r, material r))
             (\<lambda>r. cols r (col_name metric scenario)) (load_df csv)"
  have "agg_value row =
           sum_list (map (\<lambda>r. cols r (col_name metric scenario))
             (filter (\<lambda>r. zfill 4 (kommunenum r) = agg_kommunenum row \<and>
                           material r = agg_material row) csv))
           / (if metric = manufacturing_emissions then 10 else 1)"
    if "row \<in> set (merge_left ?g municipals)" for row
  proof -
    from that have "(agg_key row, agg_value row) \<in> set ?g"
      by (rule merge_left_rows)
    then have "agg_value row = sum_list (map (\<lambda>r. cols r (col_name metric scenario))
        (filter (\<lambda>r. (kommunenum r, material r) = agg_key row) (load_df csv)))"
      by (simp add: groupby_sum_mem)
    then show ?thesis
      unfolding agg_key_def by (simp only: load_df_group_sum)
  qed
  then show ?thesis
    by (simp add: precompute_lookup load_df_cols)
qed

theorem manufacturing_scaled_once_witness:
  "map (\<lambda>r. cols r ''manufacturing_emissions_mean'') (load_df ex_csv) = [3000000, 5000000] \<and>
   map (\<lambda>r. cols r ''material_stock_mean'') (load_df ex_csv) = [5000000, 7000000] \<and>
   (\<exists>t. precompute (load_df ex_csv) (load_municipals ex_shp) (manufacturing_emissions, mean_scn)
          = Some t \<and>
        map agg_value t = [50000000 / 10, 30000000 / 10])"
proof -
  from manufacturing_scaled_once [of ex_csv "load_municipals ex_shp"
      manufacturing_emissions mean_scn]
  have c: "\<forall>c. map (\<lambda>r. cols r c) (load_df ex_csv) =
        map (\<lambda>r. if startswith c ''manufacturing_emissions_'' then cols r c / 10
                  else cols r c) ex_csv"
    and t: "\<exists>t. precompute (load_df ex_csv) (load_municipals ex_shp)
          (manufacturing_emissions, mean_scn) = Some t \<and>
      (\<forall>row \<in> set t.
         agg_value row =
           sum_list (map (\<lambda>r. cols r (col_name manufacturing_emissions mean_scn))
             (filter (\<lambda>r. zfill 4 (kommunenum r) = agg_kommunenum row \<and>
                           material r = agg_material row) ex_csv))
           / (if manufacturing_emissions = manufacturing_emissions then 10 else 1))"
    by blast+
  from c have 1: "map (\<lambda>r. cols r ''manufacturing_emissions_mean'') (load_df ex_csv)
      = [3000000, 5000000]"
    by (simp add: ex_csv_def startswith_def)
  from c have 2: "map (\<lambda>r. cols r ''material_stock_mean'') (load_df ex_csv)
      = [5000000, 7000000]"
    by (simp add: ex_csv_def startswith_def)
  from t have 3: "\<exists>t. precompute (load_df ex_csv) (load_municipals ex_shp)
      (manufacturing_emissions, mean_scn) = Some t \<and>
        map agg_value t = [50000000 / 10, 30000000 / 10]"
    by (simp add: ex_store_manufacturing_mean)
  from 1 2 3 show ?thesis by blast
qed

text \<open>
  Claim C9.  With the selected material \<open>TOTAL\<close>, lines 184-191 change neither the
  working records nor the aggregate table, and the table of the map has one row for every
  pair of municipality and material of the data, in ascending order.
\<close>

theorem total_selection:
  assumes "reachable df municipals pm" and "known_muni municipals selected_muni"
    and "distinct (map muni_kommunenum municipals)"
  shows "(\<forall>recs tbl. apply_selection (Some ''TOTAL'') recs tbl = (recs, tbl, True)) \<and>
    (\<exists>d. fst (update_dashboard df municipals pm scenario metric selected_muni (Some ''TOTAL''))
            = Inr d \<and>
         map agg_key (fig_map d) = sort (remdups (map (\<lambda>r. (kommunenum r, material r)) df)))"
proof -
  have a: "apply_selection (Some ''TOTAL'') recs tbl = (recs, tbl, True)" for recs tbl
    by (simp add: apply_selection_cases truthy_str_def)
  from update_dashboard_result [OF assms(1,2), of metric scenario "Some ''TOTAL''"]
  obtain d stored where d: "pm (metric, scenario) = Some stored"
    "fst (update_dashboard df municipals pm scenario metric selected_muni (Some ''TOTAL''))
      = Inr d"
    "fig_map d = log_map (scale_map (fst (snd
      (apply_selection (Some ''TOTAL'') (base_records_spec df metric) stored))))"
    by blast
  from reachable_keys [OF assms(1,3), of metric scenario] d(1)
  have "map agg_key stored = sort (remdups (map (\<lambda>r. (kommunenum r, material r)) df))"
    by simp
  with d(2,3) a show ?thesis by simp
qed

theorem total_selection_witness:
  "reachable ex_df ex_municipals (precompute ex_df ex_municipals) \<and>
   known_muni ex_municipals None \<and>
   distinct (map muni_kommunenum ex_municipals) \<and>
   (\<exists>d. fst (update_dashboard ex_df ex_municipals (precompute ex_df ex_municipals) mean_scn
              material_stock None (Some ''TOTAL'')) = Inr d \<and>
        map agg_key (fig_map d) = [(''0301'', ''TOTAL''), (''0301'', ''wood'')])"
  using total_selection [OF ex_reachable ex_known(1) ex_distinct, of mean_scn material_stock]
    ex_reachable ex_known(1) ex_distinct
  by (simp add: ex_keys)

lemma material_chart_bars:
  "material_chart metric value_col sub =
     Material_bars
       (map (\<lambda>m. \<lparr>bar_material = m,
             bar_value = round1 (round1 (sum_list (map (\<lambda>r. cols r value_col)
               (filter (\<lambda>r. material r = m) (filter (\<lambda>r. material r \<noteq> ''TOTAL'') sub)))) / divisor),
             bar_stock = Some (round1 (sum_list (map (\<lambda>r. cols r ''material_stock_mean'')
               (filter (\<lambda>r. material r = m) (filter (\<lambda>r. material r \<noteq> ''TOTAL'') sub))) / divisor)),
             bar_emissions = Some (round1 (sum_list (map (\<lambda>r. cols r ''material_emissions_mean'')
               (filter (\<lambda>r. material r = m) (filter (\<lambda>r. material r \<noteq> ''TOTAL'') sub))) / divisor))\<rparr>)
          (sort (remdups (map material (filter (\<lambda>r. material r \<noteq> ''TOTAL'') sub)))))
       (if metric = material_emissions then Some ''stock''
        else if metric = material_stock then Some ''emissions'' else None)"
proof -
  let ?data1 = "filter (\<lambda>r. material r \<noteq> ''TOTAL'') sub"
  have df1: "map (\<lambda>(m, v). (m, round1 (v / divisor)))
        (map (\<lambda>(m, v). (m, round1 v)) (groupby_sum material (\<lambda>r. cols r value_col) ?data1)) =
      map (\<lambda>m. (m, round1 (round1 (sum_list (map (\<lambda>r. cols r value_col)
               (filter (\<lambda>r. material r = m) ?data1))) / divisor)))
        (sort (remdups (map material ?data1)))"
    by (simp add: groupby_sum_def comp_def)
  have look: "map_of (map (\<lambda>(m, v). (m, v / divisor))
        (groupby_sum material (\<lambda>r. cols r c) ?data1)) m =
      Some (sum_list (map (\<lambda>r. cols r c) (filter (\<lambda>r. material r = m) ?data1)) / divisor)"
    if "m \<in> set (sort (remdups (map material ?data1)))" for m c
    using that by (simp add: map_of_groupby_sum)
  show ?thesis
    unfolding material_chart_def Let_def df1
    by (auto simp: comp_def look)
qed

text \<open>
  Claim C10.  For the two material metrics and every scenario, each bar of the first chart
  carries as \<open>stock\<close> and \<open>emissions\<close> the rounded sums of the columns
  \<open>material_stock_mean\<close> and \<open>material_emissions_mean\<close> over the records of its material,
  divided by 1,000,000; only the bar's value reads the column of the selected scenario.
\<close>

theorem hover_context_from_mean:
  assumes "reachable df municipals pm" and "known_muni municipals selected_muni"
    and "metric \<noteq> manufacturing_emissions"
  shows "\<exists>d bars hover.
    fst (update_dashboard df municipals pm scenario metric selected_muni selected_material)
      = Inr d \<and>
    fig_bar1 d = Material_bars bars hover \<and>
    (\<forall>b \<in> set bars.
       bar_stock b =
         Some (round1 (sum_list (map (\<lambda>r. cols r ''material_stock_mean'')
           (filter (\<lambda>r. material r = bar_material b)
              (filter (\<lambda>r. material r \<noteq> ''TOTAL'')
                 (restricted_records_spec df metric selected_muni selected_material))))
           / 1000000)) \<and>
       bar_emissions b =
         Some (round1 (sum_list (map (\<lambda>r. cols r ''material_emissions_mean'')
           (filter (\<lambda>r. material r = bar_material b)
              (filter (\<lambda>r. material r \<noteq> ''TOTAL'')
                 (restricted_records_spec df metric selected_muni selected_material))))
           / 1000000)) \<and>
       bar_value b =
         round1 (round1 (sum_list (map (\<lambda>r. cols r (col_name metric scenario))
           (filter (\<lambda>r. material r = bar_material b)
              (filter (\<lambda>r. material r \<noteq> ''TOTAL'')
                 (restricted_records_spec df metric selected_muni selected_material)))))
           / 1000000))"
proof -
  from update_dashboard_result [OF assms(1,2), of metric scenario selected_material] assms(3)
  obtain d where d:
    "fst (update_dashboard df municipals pm scenario metric selected_muni selected_material)
      = Inr d"
    "fig_bar1 d = material_chart metric (col_name metric scenario)
              (restricted_records_spec df metric selected_muni selected_material)"
    by auto
  show ?thesis
    using d unfolding material_chart_bars
    by (auto simp: divisor_def)
qed

theorem hover_context_from_mean_witness:
  "reachable ex_df ex_municipals (precompute ex_df ex_municipals) \<and>
   known_muni ex_municipals None \<and>
   material_stock \<noteq> manufacturing_emissions \<and>
   (\<exists>d bars hover.
      fst (update_dashboard ex_df ex_municipals (precompute ex_df ex_municipals) max_scn
             material_stock None None) = Inr d \<and>
      fig_bar1 d = Material_bars bars hover \<and>
      map bar_material bars = [''wood''] \<and>
      (\<forall>b \<in> set bars. bar_stock b = Some 5 \<and> bar_emissions b = Some (6 / 5) \<and> bar_value b = 6))"
proof -
  have m: "material_stock \<noteq> manufacturing_emissions" by simp
  from hover_context_from_mean [OF ex_reachable ex_known(1) m, of max_scn None]
  obtain d bars hover where d:
    "fst (update_dashboard ex_df ex_municipals (precompute ex_df ex_municipals) max_scn
             material_stock None None) = Inr d"
    "fig_bar1 d = Material_bars bars hover"
    and b: "\<forall>b \<in> set bars.
       bar_stock b =
         Some (round1 (sum_list (map (\<lambda>r. cols r ''material_stock_mean'')
           (filter (\<lambda>r. material r = bar_material b)
              (filter (\<lambda>r. material r \<noteq> ''TOTAL'')
                 (restricted_records_spec ex_df material_stock None None))))
           / 1000000)) \<and>
       bar_emissions b =
         Some (round1 (sum_list (map (\<lambda>r. cols r ''material_emissions_mean'')
           (filter (\<lambda>r. material r = bar_material b)
              (filter (\<lambda>r. material r \<noteq> ''TOTAL'')
                 (restricted_records_spec ex_df material_stock None None))))
           / 1000000)) \<and>
       bar_value b =
         round1 (round1 (sum_list (map (\<lambda>r. cols r (col_name material_stock max_scn))
           (filter (\<lambda>r. material r = bar_material b)
              (filter (\<lambda>r. material r \<noteq> ''TOTAL'')
                 (restricted_records_spec ex_df material_stock None None)))))
           / 1000000)"
    by blast
  from update_dashboard_result [OF ex_reachable ex_known(1), of material_stock max_scn None] d(1)
  have "fig_bar1 d = material_chart material_stock (col_name material_stock max_scn)
      (restricted_records_spec ex_df material_stock None None)"
    by auto
  with d(2) have names: "map bar_material bars = [''wood'']"
    by (auto simp: material_chart_bars ex_data1 ex_wood_materials comp_def)
  have "bar_stock x = Some 5 \<and> bar_emissions x = Some (6 / 5) \<and> bar_value x = 6"
    if "x \<in> set bars" for x
  proof -
    from that names have "bar_material x = ''wood''"
      by (cases bars) auto
    with b that show ?thesis
      by (simp add: ex_data1 ex_wood_sums round1_simple round1_more)
  qed
  then have "\<forall>b \<in> set bars.
      bar_stock b = Some 5 \<and> bar_emissions b = Some (6 / 5) \<and> bar_value b = 6"
    by simp
  with d names have "\<exists>d bars hover.
      fst (update_dashboard ex_df ex_municipals (precompute ex_df ex_municipals) max_scn
             material_stock None None) = Inr d \<and>
      fig_bar1 d = Material_bars bars hover \<and>
      map bar_material bars = [''wood''] \<and>
      (\<forall>b \<in> set bars. bar_stock b = Some 5 \<and> bar_emissions b = Some (6 / 5) \<and> bar_value b = 6)"
    by (intro exI [of _ d] exI [of _ bars] exI [of _ hover]) simp
  with m ex_reachable ex_known(1) show ?thesis by simp
qed

end
